theory Spec2Isabelle
  imports Main
begin

section \<open>Python values used by the plugin\<close>

text \<open>
  The plugin \<^verbatim>\<open>NwsBot\<close> of \<^verbatim>\<open>weather/weather.py\<close> is embedded function by function.
  A Python \<^verbatim>\<open>str\<close> is a \<^typ>\<open>string\<close>; each \<^typ>\<open>char\<close> stands for one code point
  below 256. Exceptions are values of the type \<open>error\<close>: \<open>AttributeError\<close> is raised
  by \<^verbatim>\<open>.strip()\<close> on a configuration entry that is not a string, \<open>ClientError\<close> by the
  HTTP client, \<open>ParseError\<close> by \<^verbatim>\<open>ET.fromstring\<close> (the specification calls the last two
  \<^verbatim>\<open>FetchError\<close> and \<^verbatim>\<open>MalformedResponseError\<close>).
\<close>

datatype error = AttributeError | ClientError | ParseError

text \<open>
  An entry of the configuration: \<^verbatim>\<open>self.config[name]\<close> is \<^verbatim>\<open>None\<close> for a null or absent
  key, a boolean (\<^verbatim>\<open>show_link\<close>, \<^verbatim>\<open>show_image\<close>) or a string (\<^verbatim>\<open>default_location\<close>).
\<close>

datatype cfg_value = CNone | CBool bool | CStr string

text \<open>Python truthiness, as used by \<^verbatim>\<open>if self.config["show_link"]\<close>.\<close>

fun truthy :: "cfg_value \<Rightarrow> bool" where
  "truthy CNone = False"
| "truthy (CBool b) = b"
| "truthy (CStr s) = (s \<noteq> [])"

text \<open>
  \<^verbatim>\<open>str.isspace\<close> on one code point below 256: the ASCII white space
  \<^verbatim>\<open>\t \n \v \f \r\<close>, the separators \<^verbatim>\<open>0x1c .. 0x1f\<close>, the blank, and \<^verbatim>\<open>0x85\<close>, \<^verbatim>\<open>0xa0\<close>.
\<close>

definition isspace :: "char \<Rightarrow> bool" where
  "isspace c = (of_char c \<in> {9, 10, 11, 12, 13, 28, 29, 30, 31, 32, 133, 160 :: nat})"

text \<open>\<^verbatim>\<open>str.strip()\<close> without argument: white space is dropped at both ends.\<close>

definition lstrip :: "string \<Rightarrow> string" where
  "lstrip s = dropWhile isspace s"

definition rstrip :: "string \<Rightarrow> string" where
  "rstrip s = rev (dropWhile isspace (rev s))"

definition strip :: "string \<Rightarrow> string" where
  "strip s = rstrip (lstrip s)"

section \<open>The plugin object\<close>

text \<open>
  The fields of \<^verbatim>\<open>NwsBot\<close> that the methods read and write. The methods mutate
  \<^verbatim>\<open>self\<close>; here each one takes the object and returns it updated.
\<close>

record nwsbot =
  config :: "string \<Rightarrow> cfg_value"
  stored_language :: string
  stored_location :: string
  stored_units :: string

definition service_url :: string where
  "service_url = ''https://w1.weather.gov/xml/current_obs''"

definition reset_stored_values :: "nwsbot \<Rightarrow> nwsbot" where
  "reset_stored_values s =
     s\<lparr>stored_language := [], stored_location := [], stored_units := []\<rparr>"

text \<open>
  \<^verbatim>\<open>_config_value\<close>: the entry stripped when it is not \<^verbatim>\<open>None\<close>, the empty string
  otherwise. A boolean has no \<^verbatim>\<open>strip\<close> method.
\<close>

definition config_value :: "nwsbot \<Rightarrow> string \<Rightarrow> error + string" where
  "config_value s name =
     (case config s name of
        CNone \<Rightarrow> Inr []
      | CStr v \<Rightarrow> Inr (strip v)
      | CBool b \<Rightarrow> Inl AttributeError)"

text \<open>
  \<^verbatim>\<open>_location\<close>: resolves only while the stored location is the empty string, and
  returns the stored location.
\<close>

definition location :: "nwsbot \<Rightarrow> string \<Rightarrow> error + (string \<times> nwsbot)" where
  "location s raw =
     (if stored_location s = []
      then (let loc = strip raw in
            if loc \<noteq> []
            then Inr (strip loc, s\<lparr>stored_location := strip loc\<rparr>)
            else (case config_value s ''default_location'' of
                    Inl e \<Rightarrow> Inl e
                  | Inr d \<Rightarrow> Inr (strip d, s\<lparr>stored_location := strip d\<rparr>)))
      else Inr (stored_location s, s))"

text \<open>
  \<^verbatim>\<open>_options\<close>: the option set built from the stored language and units. No other
  method calls it.
\<close>

definition options :: "nwsbot \<Rightarrow> (string \<rightharpoonup> string)" where
  "options s =
     (let options0 = Map.empty;
          options1 = (if stored_language s \<noteq> []
                      then options0(''lang'' \<mapsto> stored_language s) else options0);
          options2 = (if stored_units s \<noteq> []
                      then options1(stored_units s \<mapsto> []) else options1)
      in options2)"

text \<open>
  \<^verbatim>\<open>_base_url\<close> and \<^verbatim>\<open>_url\<close>. The class \<^verbatim>\<open>URL\<close> belongs to the library yarl: the
  parameter \<open>URL_str\<close> is \<^verbatim>\<open>str(URL(x))\<close>, the text of the parsed URL.
\<close>

definition base_url :: "(string \<Rightarrow> string) \<Rightarrow> nwsbot \<Rightarrow> error + (string \<times> nwsbot)" where
  "base_url URL_str s =
     (case location s [] of
        Inl e \<Rightarrow> Inl e
      | Inr (loc, s') \<Rightarrow> Inr (URL_str (service_url @ ''/'' @ loc @ ''.xml''), s'))"

definition url :: "(string \<Rightarrow> string) \<Rightarrow> nwsbot \<Rightarrow> error + (string \<times> nwsbot)" where
  "url URL_str s = base_url URL_str s"

section \<open>The XML response\<close>

text \<open>
  An \<^verbatim>\<open>xml.etree.ElementTree.Element\<close>: its tag, its text (\<^verbatim>\<open>None\<close> for an element
  without text, such as \<^verbatim>\<open><wind_string/>\<close>) and its child elements in document order.
\<close>

datatype element =
  Element (tag: string) (text_content: "string option") (children: "element list")

text \<open>
  The dictionary \<^verbatim>\<open>wxdict\<close>: a tag is mapped to the text of an element, which may be
  \<^verbatim>\<open>None\<close>.
\<close>

type_synonym wxdict = "string \<rightharpoonup> string option"

text \<open>The loop \<^verbatim>\<open>for child in tree\<close> of \<^verbatim>\<open>_parse_xml\<close>, with the dictionary it fills.\<close>

fun parse_children :: "element list \<Rightarrow> wxdict \<Rightarrow> wxdict" where
  "parse_children [] wxdict = wxdict"
| "parse_children (child # rest) wxdict =
     (if tag child = ''image'' then parse_children rest wxdict
      else if tag child = ''observation_time'' then parse_children rest wxdict
      else parse_children rest (wxdict(tag child \<mapsto> text_content child)))"

text \<open>
  \<^verbatim>\<open>_parse_xml\<close>. The parser \<^verbatim>\<open>ET.fromstring\<close> belongs to the standard library: the
  parameter \<open>fromstring\<close> gives the root element of a well-formed document and
  \<open>None\<close> where \<^verbatim>\<open>ET.fromstring\<close> raises \<^verbatim>\<open>ParseError\<close>. Nothing catches the exception.
\<close>

definition parse_xml :: "(string \<Rightarrow> element option) \<Rightarrow> string \<Rightarrow> error + wxdict" where
  "parse_xml fromstring xmldata =
     (case fromstring xmldata of
        None \<Rightarrow> Inl ParseError
      | Some tree \<Rightarrow> Inr (parse_children (children tree) Map.empty))"

text \<open>
  The mapping in the words of the specification: no entry for the tags \<^verbatim>\<open>image\<close> and
  \<^verbatim>\<open>observation_time\<close>; any other tag is mapped to the text of the last direct child
  that carries it.
\<close>

definition observation_record :: "element list \<Rightarrow> wxdict" where
  "observation_record cs k =
     (if k = ''image'' \<or> k = ''observation_time'' then None
      else (case filter (\<lambda>c. tag c = k) cs of
              [] \<Rightarrow> None
            | c # rest \<Rightarrow> Some (text_content (last (c # rest)))))"

section \<open>The message\<close>

text \<open>\<^verbatim>\<open>wxdata.get(key)\<close>: \<^verbatim>\<open>None\<close> for a missing key, the stored value otherwise.\<close>

definition dict_get :: "wxdict \<Rightarrow> string \<Rightarrow> string option" where
  "dict_get wxdata key = (case wxdata key of None \<Rightarrow> None | Some v \<Rightarrow> v)"

text \<open>A replacement field \<^verbatim>\<open>{v}\<close> of an f-string: \<^verbatim>\<open>str(v)\<close>, which is \<^verbatim>\<open>"None"\<close> for \<^verbatim>\<open>None\<close>.\<close>

definition py_format :: "string option \<Rightarrow> string" where
  "py_format v = (case v of None \<Rightarrow> ''None'' | Some s \<Rightarrow> s)"

text \<open>The two characters that \<^verbatim>\<open>\\\n\<close> denotes in the source: a backslash and a line feed.\<close>

definition LF :: char where
  "LF = CHR 0x0A"

definition br :: string where
  "br = [CHR 0x5C, LF]"

text \<open>The f-string \<^verbatim>\<open>wxfmt\<close> of \<^verbatim>\<open>weather_handler\<close>.\<close>

definition wxfmt :: "wxdict \<Rightarrow> string" where
  "wxfmt wxdata =
     ''['' @ py_format (dict_get wxdata ''station_id'') @ ''] Location: ''
         @ py_format (dict_get wxdata ''location'') @ br
     @ ''Weather: '' @ py_format (dict_get wxdata ''weather'') @ br
     @ ''Temperature: '' @ py_format (dict_get wxdata ''temperature_string'') @ br
     @ ''Relative Humidity: '' @ py_format (dict_get wxdata ''relative_humidity'') @ br
     @ ''Wind: '' @ py_format (dict_get wxdata ''wind_string'') @ br
     @ ''Dew Point: '' @ py_format (dict_get wxdata ''dewpoint_string'') @ br
     @ ''Visibility (miles): '' @ py_format (dict_get wxdata ''visibility_mi'')"

text \<open>
  \<^verbatim>\<open>_message\<close>. The regular-expression search of the source computes a value that is
  never read and cannot raise; it has no counterpart here.
\<close>

definition message :: "(string \<Rightarrow> string) \<Rightarrow> nwsbot \<Rightarrow> string \<Rightarrow> error + (string \<times> nwsbot)" where
  "message URL_str s content =
     (if truthy (config s ''show_link'')
      then (case url URL_str s of
              Inl e \<Rightarrow> Inl e
            | Inr (u, s') \<Rightarrow> Inr (content @ [LF, LF] @ ''([weather.gov]('' @ u @ ''))'', s'))
      else Inr (content, s))"

text \<open>
  \<^verbatim>\<open>weather_handler\<close>. The parameter \<open>http_get\<close> is the HTTP client followed by
  \<^verbatim>\<open>response.text()\<close>: the body of the response, or \<open>None\<close> where the client raises.
  The result is the message passed to \<^verbatim>\<open>evt.respond\<close>, with the plugin object as the
  handler leaves it.
\<close>

definition weather_handler ::
  "(string \<Rightarrow> string) \<Rightarrow> (string \<Rightarrow> string option) \<Rightarrow> (string \<Rightarrow> element option)
     \<Rightarrow> nwsbot \<Rightarrow> string \<Rightarrow> error + (string \<times> nwsbot)" where
  "weather_handler URL_str http_get fromstring s raw =
     (case location (reset_stored_values s) raw of
        Inl e \<Rightarrow> Inl e
      | Inr (loc, s1) \<Rightarrow>
     (case url URL_str s1 of
        Inl e \<Rightarrow> Inl e
      | Inr (u, s2) \<Rightarrow>
     (case http_get u of
        None \<Rightarrow> Inl ClientError
      | Some response_text \<Rightarrow>
     (case parse_xml fromstring response_text of
        Inl e \<Rightarrow> Inl e
      | Inr wxdata \<Rightarrow> message URL_str s2 (wxfmt wxdata)))))"

text \<open>The number of lines of a text: one more than its line feeds.\<close>

definition line_count :: "string \<Rightarrow> nat" where
  "line_count msg = Suc (length (filter (\<lambda>c. c = LF) msg))"

section \<open>Example inputs\<close>

text \<open>A configuration without entries, and one of a deployment.\<close>

definition no_config :: "string \<Rightarrow> cfg_value" where
  "no_config name = CNone"

definition example_config :: "string \<Rightarrow> cfg_value" where
  "example_config =
     no_config(''default_location'' := CStr '' KSMP '', ''show_link'' := CBool True)"

definition quiet_config :: "string \<Rightarrow> cfg_value" where
  "quiet_config =
     no_config(''default_location'' := CStr ''KMSP'', ''show_link'' := CBool False)"

text \<open>Plugin objects: as the handler finds them, and with fields set by hand.\<close>

definition fresh_bot :: nwsbot where
  "fresh_bot = \<lparr>config = example_config, stored_language = [], stored_location = [],
     stored_units = []\<rparr>"

definition quiet_bot :: nwsbot where
  "quiet_bot = \<lparr>config = quiet_config, stored_language = [], stored_location = [],
     stored_units = []\<rparr>"

definition bare_bot :: nwsbot where
  "bare_bot = \<lparr>config = no_config, stored_language = [], stored_location = [],
     stored_units = []\<rparr>"

definition english_bot :: nwsbot where
  "english_bot = \<lparr>config = no_config, stored_language = ''en'', stored_location = ''KSMP'',
     stored_units = []\<rparr>"

text \<open>
  A response with the two skipped elements and two fields, one whose only child is an
  empty element, and the root elements \<^verbatim>\<open>ET.fromstring\<close> returns for them. A finite table
  stands for the parser on these documents; any other text is taken as malformed.
\<close>

definition short_xml :: string where
  "short_xml = ''<current_observation><image><url>http://weather.gov/images/xml_logo.gif</url></image><observation_time>Last Updated on Nov 3 2026, 1:53 pm CST</observation_time><station_id>KSMP</station_id><weather>Fair</weather></current_observation>''"

definition short_tree :: element where
  "short_tree = Element ''current_observation'' None
     [Element ''image'' None
        [Element ''url'' (Some ''http://weather.gov/images/xml_logo.gif'') []],
      Element ''observation_time'' (Some ''Last Updated on Nov 3 2026, 1:53 pm CST'') [],
      Element ''station_id'' (Some ''KSMP'') [],
      Element ''weather'' (Some ''Fair'') []]"

definition calm_xml :: string where
  "calm_xml = ''<current_observation><wind_string/></current_observation>''"

definition calm_tree :: element where
  "calm_tree = Element ''current_observation'' None [Element ''wind_string'' None []]"

definition table_fromstring :: "string \<Rightarrow> element option" where
  "table_fromstring = [short_xml \<mapsto> short_tree, calm_xml \<mapsto> calm_tree]"

definition table_http_get :: "string \<Rightarrow> string option" where
  "table_http_get = [''https://w1.weather.gov/xml/current_obs/KSMP.xml'' \<mapsto> short_xml]"

text \<open>The Observation Record of the formatting example of the specification.\<close>

definition full_record :: wxdict where
  "full_record =
     [''station_id'' \<mapsto> Some ''KSMP'', ''location'' \<mapsto> Some ''St. Paul'',
      ''weather'' \<mapsto> Some ''Fair'', ''temperature_string'' \<mapsto> Some ''72F'',
      ''relative_humidity'' \<mapsto> Some ''40%'', ''wind_string'' \<mapsto> Some ''Calm'',
      ''dewpoint_string'' \<mapsto> Some ''50F'', ''visibility_mi'' \<mapsto> Some ''10'']"

section \<open>Stripping\<close>

lemma rstrip_Cons: "\<not> isspace x \<Longrightarrow> rstrip (x # xs) = x # rstrip xs"
  by (simp add: rstrip_def dropWhile_append)

lemma rstrip_idem: "rstrip (rstrip s) = rstrip s"
  by (simp add: rstrip_def)

lemma lstrip_rstrip_lstrip: "lstrip (rstrip (lstrip s)) = rstrip (lstrip s)"
proof (cases "lstrip s")
  case Nil
  then have "rstrip (lstrip s) = []" by (simp add: rstrip_def)
  then show ?thesis by (simp add: lstrip_def)
next
  case (Cons x xs)
  then have "\<not> isspace x"
    unfolding lstrip_def by (metis hd_dropWhile list.sel(1) list.distinct(1))
  with Cons show ?thesis
    by (simp add: rstrip_Cons) (simp add: lstrip_def)
qed

lemma strip_idem: "strip (strip s) = strip s"
  by (simp add: strip_def lstrip_rstrip_lstrip rstrip_idem)

lemma strip_Nil: "strip [] = []"
  by (simp add: strip_def lstrip_def rstrip_def)

text \<open>Only white space is removed, and the result neither starts nor ends with any.\<close>

lemma strip_decomp:
  "s = takeWhile isspace s @ strip s @ rev (takeWhile isspace (rev (lstrip s)))"
proof -
  have "lstrip s = rev (rev (lstrip s))" by simp
  also have "\<dots> = rev (takeWhile isspace (rev (lstrip s)) @ dropWhile isspace (rev (lstrip s)))"
    by simp
  also have "\<dots> = strip s @ rev (takeWhile isspace (rev (lstrip s)))"
    by (simp only: rev_append strip_def rstrip_def)
  finally have "lstrip s = strip s @ rev (takeWhile isspace (rev (lstrip s)))" .
  moreover have "s = takeWhile isspace s @ lstrip s"
    by (simp add: lstrip_def)
  ultimately show ?thesis by simp
qed

lemma strip_ends:
  assumes ne: "strip s \<noteq> []"
  shows "\<not> isspace (hd (strip s)) \<and> \<not> isspace (last (strip s))"
proof -
  have "lstrip (strip s) = strip s"
    by (simp add: strip_def lstrip_rstrip_lstrip)
  with ne have h: "\<not> isspace (hd (strip s))"
    by (simp add: lstrip_def dropWhile_eq_self_iff)
  from ne have "dropWhile isspace (rev (lstrip s)) \<noteq> []"
    by (simp add: strip_def rstrip_def)
  then have "\<not> isspace (hd (dropWhile isspace (rev (lstrip s))))"
    by (rule hd_dropWhile)
  then have "\<not> isspace (last (strip s))"
    using ne by (simp add: strip_def rstrip_def last_rev)
  with h show ?thesis by simp
qed

lemma lstrip_blank_iff: "lstrip s = [] \<longleftrightarrow> (\<forall>c\<in>set s. isspace c)"
  by (simp add: lstrip_def dropWhile_eq_Nil_conv)

lemma rstrip_lstrip_Nil: "rstrip (lstrip s) = [] \<Longrightarrow> lstrip s = []"
proof (rule ccontr)
  assume r: "rstrip (lstrip s) = []" and ne: "lstrip s \<noteq> []"
  from ne have "\<not> isspace (hd (lstrip s))"
    unfolding lstrip_def by (rule hd_dropWhile)
  moreover from ne have "lstrip s = hd (lstrip s) # tl (lstrip s)" by simp
  ultimately have "rstrip (lstrip s) = hd (lstrip s) # rstrip (tl (lstrip s))"
    by (metis rstrip_Cons)
  with r show False by simp
qed

lemma strip_blank_iff: "strip s = [] \<longleftrightarrow> (\<forall>c\<in>set s. isspace c)"
proof
  assume "strip s = []"
  then have "lstrip s = []" unfolding strip_def by (rule rstrip_lstrip_Nil)
  then show "\<forall>c\<in>set s. isspace c" by (simp add: lstrip_blank_iff)
next
  assume "\<forall>c\<in>set s. isspace c"
  then have "lstrip s = []" by (simp add: lstrip_blank_iff)
  then show "strip s = []" by (simp add: strip_def rstrip_def)
qed

lemmas strip_eval = strip_def lstrip_def rstrip_def isspace_def

section \<open>Location resolution\<close>

lemma location_unresolved:
  "stored_location s = [] \<Longrightarrow>
   location s raw =
     (if strip raw \<noteq> [] then Inr (strip raw, s\<lparr>stored_location := strip raw\<rparr>)
      else (case config_value s ''default_location'' of
              Inl e \<Rightarrow> Inl e
            | Inr d \<Rightarrow> Inr (strip d, s\<lparr>stored_location := strip d\<rparr>)))"
  by (simp add: location_def Let_def strip_idem)

lemma location_resolved:
  "stored_location s \<noteq> [] \<Longrightarrow> location s raw = Inr (stored_location s, s)"
  by (simp add: location_def)

lemma location_result:
  assumes "location s raw = Inr (loc, s1)"
  shows "stored_location s1 = loc \<and> config s1 = config s
    \<and> stored_language s1 = stored_language s \<and> stored_units s1 = stored_units s"
  using assms
  by (auto simp: location_def Let_def split: if_splits sum.splits)

lemma location_again:
  assumes "location s raw = Inr (loc, s1)"
  shows "location s1 [] = Inr (loc, s1)"
proof (cases "loc = []")
  case False
  with location_result [OF assms] show ?thesis
    by (simp add: location_resolved)
next
  case True
  show ?thesis
  proof (cases "stored_location s = []")
    case False
    with assms show ?thesis by (auto simp: location_def)
  next
    case st: True
    show ?thesis
    proof (cases "strip raw = []")
      case False
      with assms st True show ?thesis
        by (simp add: location_unresolved)
    next
      case blank: True
      from assms st blank obtain d where
        d: "config_value s ''default_location'' = Inr d" "loc = strip d"
           "s1 = s\<lparr>stored_location := strip d\<rparr>"
        by (auto simp: location_unresolved split: sum.splits)
      from d have "config_value s1 ''default_location'' = Inr d"
        by (simp add: config_value_def)
      moreover from d True have "stored_location s1 = []" by simp
      ultimately have "location s1 [] = Inr (strip d, s1\<lparr>stored_location := strip d\<rparr>)"
        by (simp add: location_unresolved strip_Nil)
      with d show ?thesis by simp
    qed
  qed
qed

text \<open>
  Claim C2. While no location is stored (as after \<^verbatim>\<open>_reset_stored_values\<close>), a raw
  location that is not empty after stripping resolves to the stripped raw location,
  whatever the configuration holds; a raw location that is empty or white space only
  resolves to the stripped configured default.
\<close>

theorem location_resolution:
  assumes "stored_location s = []"
  shows "(strip raw \<noteq> [] \<longrightarrow>
            location s raw = Inr (strip raw, s\<lparr>stored_location := strip raw\<rparr>))
       \<and> (strip raw = [] \<longrightarrow> config s ''default_location'' = CStr d \<longrightarrow>
            location s raw = Inr (strip d, s\<lparr>stored_location := strip d\<rparr>))"
  using assms by (simp add: location_unresolved config_value_def strip_idem)

theorem location_resolution_witness:
  "stored_location (reset_stored_values english_bot) = []
   \<and> strip '' KORD '' \<noteq> []
   \<and> location (reset_stored_values english_bot) '' KORD ''
       = Inr (''KORD'', (reset_stored_values english_bot)\<lparr>stored_location := ''KORD''\<rparr>)
   \<and> stored_location fresh_bot = [] \<and> strip ''  '' = []
   \<and> config fresh_bot ''default_location'' = CStr '' KSMP ''
   \<and> location fresh_bot ''  '' = Inr (''KSMP'', fresh_bot\<lparr>stored_location := ''KSMP''\<rparr>)"
proof -
  have h1: "stored_location (reset_stored_values english_bot) = []"
    by (simp add: reset_stored_values_def)
  have h2: "stored_location fresh_bot = []"
    by (simp add: fresh_bot_def)
  have e1: "strip '' KORD '' = ''KORD''" by (simp add: strip_eval)
  have e2: "strip ''  '' = []" by (simp add: strip_eval)
  have e3: "strip '' KSMP '' = ''KSMP''" by (simp add: strip_eval)
  have c: "config fresh_bot ''default_location'' = CStr '' KSMP ''"
    by (simp add: fresh_bot_def example_config_def)
  from location_resolution [OF h1, of "'' KORD ''"] location_resolution [OF h2, of "''  ''" "'' KSMP ''"]
  show ?thesis using h1 h2 c by (simp add: e1 e2 e3)
qed

text \<open>
  Claim C5, amended. Once a resolution has returned a location that is not empty, every
  later resolution returns the same location, whatever the configuration has become and
  whatever raw location is passed. (An empty result is not kept: the next call resolves
  again.)
\<close>

theorem location_frozen_when_nonempty:
  assumes "location s raw = Inr (loc, s1)" and "loc \<noteq> []"
  shows "location (s1\<lparr>config := cfg'\<rparr>) raw' = Inr (loc, s1\<lparr>config := cfg'\<rparr>)"
proof -
  from location_result [OF assms(1)] have "stored_location s1 = loc" by simp
  with assms(2) show ?thesis by (simp add: location_resolved)
qed

theorem location_frozen_when_nonempty_witness:
  "location fresh_bot [] = Inr (''KSMP'', fresh_bot\<lparr>stored_location := ''KSMP''\<rparr>)
   \<and> ''KSMP'' \<noteq> []
   \<and> location (fresh_bot\<lparr>stored_location := ''KSMP'', config := quiet_config\<rparr>) []
       = Inr (''KSMP'', fresh_bot\<lparr>stored_location := ''KSMP'', config := quiet_config\<rparr>)"
proof -
  have e: "strip '' KSMP '' = ''KSMP''" "strip ''KSMP'' = ''KSMP''" by (simp_all add: strip_eval)
  have h: "location fresh_bot [] = Inr (''KSMP'', fresh_bot\<lparr>stored_location := ''KSMP''\<rparr>)"
    by (simp add: location_def Let_def strip_Nil config_value_def fresh_bot_def
        example_config_def e)
  have n: "''KSMP'' \<noteq> []" by simp
  from location_frozen_when_nonempty [OF h n, of quiet_config "[]"] h
  show ?thesis by simp
qed

text \<open>
  With no default configured the first resolution is empty; after the default has been
  set, the second resolution of the same raw location is \<^verbatim>\<open>KMSP\<close>.
\<close>

theorem location_refrozen_counterexample:
  "location bare_bot [] = Inr ([], bare_bot)
   \<and> location (bare_bot\<lparr>config := quiet_config\<rparr>) []
       = Inr (''KMSP'', bare_bot\<lparr>config := quiet_config, stored_location := ''KMSP''\<rparr>)"
proof -
  have e: "strip ''KMSP'' = ''KMSP''" by (simp add: strip_eval)
  show ?thesis
    by (simp add: location_def Let_def strip_Nil config_value_def bare_bot_def
        no_config_def quiet_config_def e)
qed

text \<open>
  Claim C10, amended. Reading a configuration entry that is null or absent gives the
  empty string; reading a string entry gives it stripped; so with no configured
  \<^verbatim>\<open>default_location\<close> a blank raw location resolves, without an exception, to the
  empty location.
\<close>

theorem config_value_null_safe:
  "(config s name = CNone \<longrightarrow> config_value s name = Inr [])
   \<and> (config s name = CStr v \<longrightarrow> config_value s name = Inr (strip v))
   \<and> (config s ''default_location'' = CNone \<longrightarrow> stored_location s = [] \<longrightarrow> strip raw = [] \<longrightarrow>
        location s raw = Inr ([], s\<lparr>stored_location := []\<rparr>))"
  by (simp add: config_value_def location_unresolved strip_Nil)

theorem config_value_null_safe_witness:
  "config bare_bot ''default_location'' = CNone
   \<and> config_value bare_bot ''default_location'' = Inr []
   \<and> config fresh_bot ''default_location'' = CStr '' KSMP ''
   \<and> config_value fresh_bot ''default_location'' = Inr ''KSMP''
   \<and> stored_location bare_bot = [] \<and> strip [] = []
   \<and> location bare_bot [] = Inr ([], bare_bot\<lparr>stored_location := []\<rparr>)"
proof -
  have c1: "config bare_bot ''default_location'' = CNone"
    by (simp add: bare_bot_def no_config_def)
  have c2: "config fresh_bot ''default_location'' = CStr '' KSMP ''"
    by (simp add: fresh_bot_def example_config_def)
  have st: "stored_location bare_bot = []" by (simp add: bare_bot_def)
  have e: "strip '' KSMP '' = ''KSMP''" by (simp add: strip_eval)
  from config_value_null_safe [of bare_bot "''default_location''" "[]" "[]"]
       config_value_null_safe [of fresh_bot "''default_location''" "'' KSMP ''" "[]"]
  show ?thesis using c1 c2 st by (simp add: e strip_Nil)
qed

text \<open>The entry \<^verbatim>\<open>show_link\<close> is a boolean: reading it through \<^verbatim>\<open>_config_value\<close> raises.\<close>

theorem config_value_boolean_counterexample:
  "config fresh_bot ''show_link'' = CBool True
   \<and> config_value fresh_bot ''show_link'' = Inl AttributeError"
  by (simp add: config_value_def fresh_bot_def example_config_def)

section \<open>The request URL\<close>

lemma url_eq:
  "location s [] = Inr (loc, s') \<Longrightarrow>
   url URL_str s = Inr (URL_str (service_url @ ''/'' @ loc @ ''.xml''), s')"
  by (simp add: url_def base_url_def)

lemma location_options_indep:
  "location s raw = Inr (loc, s') \<Longrightarrow>
   location (s\<lparr>stored_language := lang, stored_units := units\<rparr>) raw
     = Inr (loc, s'\<lparr>stored_language := lang, stored_units := units\<rparr>)"
  by (auto simp: location_def Let_def config_value_def
      split: if_splits sum.splits cfg_value.splits)

text \<open>
  Claim C1, amended. The request URL is the text of the URL
  \<^verbatim>\<open><base-service-url>/<location>.xml\<close> for the resolved location, whatever the stored
  language and units, and so whatever the option set: no query parameter is appended.
  With the location \<^verbatim>\<open>KSMP\<close>, and yarl leaving that text unchanged, the URL is
  \<^verbatim>\<open>https://w1.weather.gov/xml/current_obs/KSMP.xml\<close>.
\<close>

theorem url_ignores_options:
  "(location s [] = Inr (loc, s') \<longrightarrow>
      url URL_str (s\<lparr>stored_language := lang, stored_units := units\<rparr>)
        = Inr (URL_str (service_url @ ''/'' @ loc @ ''.xml''),
               s'\<lparr>stored_language := lang, stored_units := units\<rparr>))
   \<and> (stored_location s = ''KSMP'' \<longrightarrow>
        URL_str ''https://w1.weather.gov/xml/current_obs/KSMP.xml''
          = ''https://w1.weather.gov/xml/current_obs/KSMP.xml'' \<longrightarrow>
        url URL_str s = Inr (''https://w1.weather.gov/xml/current_obs/KSMP.xml'', s))"
proof (intro conjI impI)
  assume "location s [] = Inr (loc, s')"
  then have "location (s\<lparr>stored_language := lang, stored_units := units\<rparr>) []
     = Inr (loc, s'\<lparr>stored_language := lang, stored_units := units\<rparr>)"
    by (rule location_options_indep)
  then show "url URL_str (s\<lparr>stored_language := lang, stored_units := units\<rparr>)
        = Inr (URL_str (service_url @ ''/'' @ loc @ ''.xml''),
               s'\<lparr>stored_language := lang, stored_units := units\<rparr>)"
    by (rule url_eq)
next
  assume st: "stored_location s = ''KSMP''"
    and same: "URL_str ''https://w1.weather.gov/xml/current_obs/KSMP.xml''
          = ''https://w1.weather.gov/xml/current_obs/KSMP.xml''"
  from st have "location s [] = Inr (''KSMP'', s)" by (simp add: location_def)
  then have "url URL_str s = Inr (URL_str (service_url @ ''/'' @ ''KSMP'' @ ''.xml''), s)"
    by (rule url_eq)
  with same show "url URL_str s = Inr (''https://w1.weather.gov/xml/current_obs/KSMP.xml'', s)"
    by (simp add: service_url_def)
qed

theorem url_ignores_options_witness:
  "location fresh_bot [] = Inr (''KSMP'', fresh_bot\<lparr>stored_location := ''KSMP''\<rparr>)
   \<and> options (fresh_bot\<lparr>stored_language := ''en'', stored_units := ''m''\<rparr>) ''lang'' = Some ''en''
   \<and> url id (fresh_bot\<lparr>stored_language := ''en'', stored_units := ''m''\<rparr>)
       = Inr (''https://w1.weather.gov/xml/current_obs/KSMP.xml'',
              fresh_bot\<lparr>stored_location := ''KSMP'', stored_language := ''en'', stored_units := ''m''\<rparr>)
   \<and> stored_location english_bot = ''KSMP''
   \<and> id ''https://w1.weather.gov/xml/current_obs/KSMP.xml''
       = ''https://w1.weather.gov/xml/current_obs/KSMP.xml''
   \<and> url id english_bot = Inr (''https://w1.weather.gov/xml/current_obs/KSMP.xml'', english_bot)"
proof -
  have e: "strip '' KSMP '' = ''KSMP''" "strip ''KSMP'' = ''KSMP''" by (simp_all add: strip_eval)
  have h: "location fresh_bot [] = Inr (''KSMP'', fresh_bot\<lparr>stored_location := ''KSMP''\<rparr>)"
    by (simp add: location_def Let_def strip_Nil config_value_def fresh_bot_def
        example_config_def e)
  have st: "stored_location english_bot = ''KSMP''" by (simp add: english_bot_def)
  have o: "options (fresh_bot\<lparr>stored_language := ''en'', stored_units := ''m''\<rparr>) ''lang'' = Some ''en''"
    by (simp add: options_def Let_def)
  from url_ignores_options [where s = fresh_bot and loc = "''KSMP''"
        and s' = "fresh_bot\<lparr>stored_location := ''KSMP''\<rparr>" and URL_str = id
        and lang = "''en''" and units = "''m''"]
    url_ignores_options [where s = english_bot and loc = "''KSMP''" and s' = english_bot
        and URL_str = id and lang = "[]" and units = "[]"]
  show ?thesis using h st o by (simp add: service_url_def)
qed

text \<open>
  With the location \<^verbatim>\<open>KSMP\<close> and the option set \<^verbatim>\<open>{lang: "en"}\<close> the URL carries no
  \<^verbatim>\<open>?lang=en\<close>.
\<close>

theorem url_without_query_counterexample:
  "options english_bot ''lang'' = Some ''en''
   \<and> url id english_bot = Inr (''https://w1.weather.gov/xml/current_obs/KSMP.xml'', english_bot)
   \<and> url id english_bot
       \<noteq> Inr (''https://w1.weather.gov/xml/current_obs/KSMP.xml?lang=en'', english_bot)"
  by (simp add: options_def Let_def url_def base_url_def location_def english_bot_def
      service_url_def)

section \<open>Parsing the response\<close>

lemma observation_record_Nil: "observation_record [] = Map.empty"
  by (rule ext) (simp add: observation_record_def)

lemma observation_record_skip:
  "tag c = ''image'' \<or> tag c = ''observation_time'' \<Longrightarrow>
   observation_record (c # cs) = observation_record cs"
  by (rule ext) (auto simp: observation_record_def)

lemma observation_record_keep:
  assumes "tag c \<noteq> ''image''" and "tag c \<noteq> ''observation_time''"
  shows "[tag c \<mapsto> text_content c] ++ observation_record cs = observation_record (c # cs)"
proof (rule ext)
  fix k
  show "([tag c \<mapsto> text_content c] ++ observation_record cs) k = observation_record (c # cs) k"
    using assms
    by (auto simp: observation_record_def map_add_def split: list.splits option.splits)
qed

lemma parse_children_eq: "parse_children cs wxdict = wxdict ++ observation_record cs"
proof (induction cs arbitrary: wxdict)
  case Nil
  show ?case by (simp add: observation_record_Nil)
next
  case (Cons c cs)
  show ?case
  proof (cases "tag c = ''image'' \<or> tag c = ''observation_time''")
    case True
    then show ?thesis
      using Cons.IH [of wxdict] by (auto simp: observation_record_skip)
  next
    case False
    then have keep: "tag c \<noteq> ''image''" "tag c \<noteq> ''observation_time''" by simp_all
    have "parse_children (c # cs) wxdict
        = parse_children cs (wxdict(tag c \<mapsto> text_content c))"
      using keep by simp
    also have "\<dots> = wxdict(tag c \<mapsto> text_content c) ++ observation_record cs"
      by (rule Cons.IH)
    also have "wxdict(tag c \<mapsto> text_content c) = wxdict ++ [tag c \<mapsto> text_content c]"
      by simp
    also have "wxdict ++ [tag c \<mapsto> text_content c] ++ observation_record cs
        = wxdict ++ ([tag c \<mapsto> text_content c] ++ observation_record cs)"
      by (simp only: map_add_assoc)
    finally show ?thesis
      by (simp only: observation_record_keep [OF keep])
  qed
qed

lemma parse_xml_eq:
  "fromstring xmldata = Some tree \<Longrightarrow>
   parse_xml fromstring xmldata = Inr (observation_record (children tree))"
  by (simp add: parse_xml_def parse_children_eq)

lemma observation_record_value:
  assumes "observation_record cs k = Some v"
  shows "\<exists>c\<in>set cs. tag c = k \<and> text_content c = v"
proof -
  from assms obtain c rest where f: "filter (\<lambda>c. tag c = k) cs = c # rest"
    and v: "v = text_content (last (c # rest))"
    by (auto simp: observation_record_def split: if_splits list.splits)
  have "last (c # rest) \<in> set (filter (\<lambda>c. tag c = k) cs)"
    unfolding f by (rule last_in_set) simp
  then have "last (c # rest) \<in> set cs \<and> tag (last (c # rest)) = k" by simp
  with v show ?thesis by blast
qed

text \<open>
  Claim C3. For a well-formed document the parser returns the mapping of the
  specification over the direct children of the root: the children tagged \<^verbatim>\<open>image\<close> or
  \<^verbatim>\<open>observation_time\<close> are skipped, every other tag is mapped to the text of its last
  occurrence. A root with the children \<^verbatim>\<open>image\<close>, \<^verbatim>\<open>observation_time\<close>,
  \<^verbatim>\<open>station_id\<close> = KSMP, \<^verbatim>\<open>weather\<close> = Fair gives exactly these two entries, and a root
  without children gives the empty mapping.
\<close>

theorem parse_xml_record:
  assumes "fromstring xmldata = Some tree"
  shows "parse_xml fromstring xmldata = Inr (observation_record (children tree))
    \<and> (children tree = [Element ''image'' t1 c1, Element ''observation_time'' t2 c2,
          Element ''station_id'' (Some ''KSMP'') c3, Element ''weather'' (Some ''Fair'') c4] \<longrightarrow>
        parse_xml fromstring xmldata
          = Inr [''station_id'' \<mapsto> Some ''KSMP'', ''weather'' \<mapsto> Some ''Fair''])
    \<and> (children tree = [] \<longrightarrow> parse_xml fromstring xmldata = Inr Map.empty)"
proof (intro conjI impI)
  show "parse_xml fromstring xmldata = Inr (observation_record (children tree))"
    using assms by (rule parse_xml_eq)
next
  assume "children tree = [Element ''image'' t1 c1, Element ''observation_time'' t2 c2,
    Element ''station_id'' (Some ''KSMP'') c3, Element ''weather'' (Some ''Fair'') c4]"
  with assms show "parse_xml fromstring xmldata
      = Inr [''station_id'' \<mapsto> Some ''KSMP'', ''weather'' \<mapsto> Some ''Fair'']"
    by (simp add: parse_xml_def)
next
  assume "children tree = []"
  with assms show "parse_xml fromstring xmldata = Inr Map.empty"
    by (simp add: parse_xml_def)
qed

theorem parse_xml_record_witness:
  "table_fromstring short_xml = Some short_tree
   \<and> parse_xml table_fromstring short_xml = Inr (observation_record (children short_tree))
   \<and> parse_xml table_fromstring short_xml
       = Inr [''station_id'' \<mapsto> Some ''KSMP'', ''weather'' \<mapsto> Some ''Fair'']"
proof -
  have h: "table_fromstring short_xml = Some short_tree"
    by (simp add: table_fromstring_def short_xml_def calm_xml_def)
  have c: "children short_tree = [Element ''image'' None
        [Element ''url'' (Some ''http://weather.gov/images/xml_logo.gif'') []],
      Element ''observation_time'' (Some ''Last Updated on Nov 3 2026, 1:53 pm CST'') [],
      Element ''station_id'' (Some ''KSMP'') [],
      Element ''weather'' (Some ''Fair'') []]"
    by (simp add: short_tree_def)
  note t = parse_xml_record [where fromstring = table_fromstring and xmldata = short_xml
      and tree = short_tree and ?t1.0 = None
      and ?c1.0 = "[Element ''url'' (Some ''http://weather.gov/images/xml_logo.gif'') []]"
      and ?t2.0 = "Some ''Last Updated on Nov 3 2026, 1:53 pm CST''"
      and ?c2.0 = "[]" and ?c3.0 = "[]" and ?c4.0 = "[]", OF h]
  from t have a: "parse_xml table_fromstring short_xml
      = Inr (observation_record (children short_tree))"
    by (rule conjunct1)
  from t have "children short_tree = [Element ''image'' None
        [Element ''url'' (Some ''http://weather.gov/images/xml_logo.gif'') []],
      Element ''observation_time'' (Some ''Last Updated on Nov 3 2026, 1:53 pm CST'') [],
      Element ''station_id'' (Some ''KSMP'') [],
      Element ''weather'' (Some ''Fair'') []] \<longrightarrow>
    parse_xml table_fromstring short_xml
      = Inr [''station_id'' \<mapsto> Some ''KSMP'', ''weather'' \<mapsto> Some ''Fair'']"
    by blast
  then have b: "parse_xml table_fromstring short_xml
      = Inr [''station_id'' \<mapsto> Some ''KSMP'', ''weather'' \<mapsto> Some ''Fair'']"
    using c by (rule mp)
  from h a b show ?thesis by (intro conjI)
qed

text \<open>
  Claim C4. On a text that is not well-formed XML the parser fails with the parse error
  (the \<^verbatim>\<open>MalformedResponseError\<close> of the specification); whenever it returns a record, the
  text was well-formed and the record is the one built from all children of its root.
\<close>

theorem parse_xml_malformed:
  "(fromstring xmldata = None \<longrightarrow> parse_xml fromstring xmldata = Inl ParseError)
   \<and> (parse_xml fromstring xmldata = Inr wxdata \<longrightarrow>
        (\<exists>tree. fromstring xmldata = Some tree
           \<and> wxdata = parse_children (children tree) Map.empty))"
  by (auto simp: parse_xml_def split: option.splits)

theorem parse_xml_malformed_witness:
  "table_fromstring ''502 Bad Gateway'' = None
   \<and> parse_xml table_fromstring ''502 Bad Gateway'' = Inl ParseError
   \<and> parse_xml table_fromstring short_xml
       = Inr [''station_id'' \<mapsto> Some ''KSMP'', ''weather'' \<mapsto> Some ''Fair'']
   \<and> (\<exists>tree. table_fromstring short_xml = Some tree
         \<and> [''station_id'' \<mapsto> Some ''KSMP'', ''weather'' \<mapsto> Some ''Fair'']
             = parse_children (children tree) Map.empty)"
proof -
  have n: "table_fromstring ''502 Bad Gateway'' = None"
    by (simp add: table_fromstring_def short_xml_def calm_xml_def)
  have p: "parse_xml table_fromstring short_xml
      = Inr [''station_id'' \<mapsto> Some ''KSMP'', ''weather'' \<mapsto> Some ''Fair'']"
    by (simp add: parse_xml_def table_fromstring_def short_tree_def short_xml_def calm_xml_def)
  from parse_xml_malformed [of table_fromstring "''502 Bad Gateway''" Map.empty]
       parse_xml_malformed [of table_fromstring short_xml
         "[''station_id'' \<mapsto> Some ''KSMP'', ''weather'' \<mapsto> Some ''Fair'']"] n p
  show ?thesis by simp
qed

text \<open>
  Claim C6, amended. For a well-formed response every value stored in the record is the
  text of a direct child carrying that tag, as the parser reports it and unchanged: a
  string, or \<^verbatim>\<open>None\<close> for a child without text.
\<close>

theorem parse_xml_values_verbatim:
  assumes "fromstring xmldata = Some tree"
  shows "\<exists>wxdata. parse_xml fromstring xmldata = Inr wxdata
    \<and> (\<forall>k v. wxdata k = Some v \<longrightarrow> (\<exists>c\<in>set (children tree). tag c = k \<and> text_content c = v))"
  using assms by (auto simp: parse_xml_eq dest: observation_record_value)

theorem parse_xml_values_verbatim_witness:
  "table_fromstring calm_xml = Some calm_tree
   \<and> (\<exists>wxdata. parse_xml table_fromstring calm_xml = Inr wxdata
        \<and> (\<forall>k v. wxdata k = Some v \<longrightarrow>
              (\<exists>c\<in>set (children calm_tree). tag c = k \<and> text_content c = v)))"
proof -
  have h: "table_fromstring calm_xml = Some calm_tree"
    by (simp add: table_fromstring_def)
  from parse_xml_values_verbatim [where fromstring = table_fromstring and xmldata = calm_xml
      and tree = calm_tree] h
  show ?thesis by simp
qed

text \<open>
  The empty element \<^verbatim>\<open><wind_string/>\<close> is stored with the value \<^verbatim>\<open>None\<close>, which is not a
  string.
\<close>

theorem parse_xml_null_value_counterexample:
  "table_fromstring calm_xml = Some calm_tree
   \<and> parse_xml table_fromstring calm_xml = Inr [''wind_string'' \<mapsto> None]"
  by (simp add: parse_xml_def table_fromstring_def calm_tree_def)

section \<open>Formatting and the handler\<close>

text \<open>
  Claim C9. With \<^verbatim>\<open>show_link\<close> set, the message is the content, a blank line and the
  line \<^verbatim>\<open>([weather.gov](URL))\<close> with the request URL; with \<^verbatim>\<open>show_link\<close> unset it is the
  content alone.
\<close>

theorem message_link:
  "(truthy (config s ''show_link'') \<longrightarrow> url URL_str s = Inr (u, s') \<longrightarrow>
      message URL_str s content
        = Inr (content @ [LF, LF] @ ''([weather.gov]('' @ u @ ''))'', s'))
   \<and> (\<not> truthy (config s ''show_link'') \<longrightarrow> message URL_str s content = Inr (content, s))"
  by (simp add: message_def)

theorem message_link_witness:
  "truthy (config (fresh_bot\<lparr>stored_location := ''KSMP''\<rparr>) ''show_link'')
   \<and> url id (fresh_bot\<lparr>stored_location := ''KSMP''\<rparr>)
       = Inr (''https://w1.weather.gov/xml/current_obs/KSMP.xml'',
              fresh_bot\<lparr>stored_location := ''KSMP''\<rparr>)
   \<and> message id (fresh_bot\<lparr>stored_location := ''KSMP''\<rparr>) ''Weather: Fair''
       = Inr (''Weather: Fair'' @ [LF, LF]
                @ ''([weather.gov](https://w1.weather.gov/xml/current_obs/KSMP.xml))'',
              fresh_bot\<lparr>stored_location := ''KSMP''\<rparr>)
   \<and> \<not> truthy (config quiet_bot ''show_link'')
   \<and> message id quiet_bot ''Weather: Fair'' = Inr (''Weather: Fair'', quiet_bot)"
proof -
  have t: "truthy (config (fresh_bot\<lparr>stored_location := ''KSMP''\<rparr>) ''show_link'')"
    by (simp add: fresh_bot_def example_config_def)
  have u: "url id (fresh_bot\<lparr>stored_location := ''KSMP''\<rparr>)
       = Inr (''https://w1.weather.gov/xml/current_obs/KSMP.xml'',
              fresh_bot\<lparr>stored_location := ''KSMP''\<rparr>)"
    by (simp add: url_def base_url_def location_def service_url_def)
  have q: "\<not> truthy (config quiet_bot ''show_link'')"
    by (simp add: quiet_bot_def quiet_config_def)
  from message_link [where s = "fresh_bot\<lparr>stored_location := ''KSMP''\<rparr>" and URL_str = id
        and u = "''https://w1.weather.gov/xml/current_obs/KSMP.xml''"
        and s' = "fresh_bot\<lparr>stored_location := ''KSMP''\<rparr>" and content = "''Weather: Fair''"]
       message_link [where s = quiet_bot and URL_str = id and u = "[]" and s' = quiet_bot
        and content = "''Weather: Fair''"]
  show ?thesis using t u q by simp
qed

lemma message_resolved:
  assumes "location s raw = Inr (loc, s1)"
  shows "message URL_str s1 content =
    Inr (content @ (if truthy (config s1 ''show_link'')
                    then [LF, LF] @ ''([weather.gov]('' @ URL_str (service_url @ ''/'' @ loc @ ''.xml'') @ ''))''
                    else []), s1)"
proof -
  from assms have "location s1 [] = Inr (loc, s1)" by (rule location_again)
  then have "url URL_str s1 = Inr (URL_str (service_url @ ''/'' @ loc @ ''.xml''), s1)"
    by (rule url_eq)
  then show ?thesis by (simp add: message_def)
qed

lemma weather_handler_eq:
  assumes loc: "location (reset_stored_values s) raw = Inr (loc, s1)"
    and get: "http_get (URL_str (service_url @ ''/'' @ loc @ ''.xml'')) = Some response_text"
    and parse: "fromstring response_text = Some tree"
  shows "weather_handler URL_str http_get fromstring s raw
    = message URL_str s1 (wxfmt (observation_record (children tree)))"
proof -
  from loc have "location s1 [] = Inr (loc, s1)" by (rule location_again)
  then have u: "url URL_str s1 = Inr (URL_str (service_url @ ''/'' @ loc @ ''.xml''), s1)"
    by (rule url_eq)
  from parse have p: "parse_xml fromstring response_text
      = Inr (observation_record (children tree))"
    by (rule parse_xml_eq)
  show ?thesis
    using get by (simp add: weather_handler_def loc u p)
qed

lemma py_format_missing: "wxdata key = None \<Longrightarrow> py_format (dict_get wxdata key) = ''None''"
  by (simp add: py_format_def dict_get_def)

text \<open>
  Claim C7. Once the location is resolved, the response fetched and the response
  well-formed, the handler completes with a message, whichever fields the response holds;
  a field that is missing from the record is rendered as the token \<^verbatim>\<open>None\<close>.
\<close>

theorem missing_fields_do_not_fail:
  assumes "location (reset_stored_values s) raw = Inr (loc, s1)"
    and "http_get (URL_str (service_url @ ''/'' @ loc @ ''.xml'')) = Some response_text"
    and "fromstring response_text = Some tree"
  shows "weather_handler URL_str http_get fromstring s raw
      = Inr (wxfmt (observation_record (children tree))
               @ (if truthy (config s ''show_link'')
                  then [LF, LF] @ ''([weather.gov]('' @ URL_str (service_url @ ''/'' @ loc @ ''.xml'') @ ''))''
                  else []), s1)
    \<and> (\<forall>key. observation_record (children tree) key = None \<longrightarrow>
          py_format (dict_get (observation_record (children tree)) key) = ''None'')"
proof -
  from assms(1) have "config s1 = config (reset_stored_values s)"
    using location_result by blast
  then have c: "config s1 = config s" by (simp add: reset_stored_values_def)
  have "weather_handler URL_str http_get fromstring s raw
      = message URL_str s1 (wxfmt (observation_record (children tree)))"
    using assms by (rule weather_handler_eq)
  also have "\<dots> = Inr (wxfmt (observation_record (children tree))
               @ (if truthy (config s1 ''show_link'')
                  then [LF, LF] @ ''([weather.gov]('' @ URL_str (service_url @ ''/'' @ loc @ ''.xml'') @ ''))''
                  else []), s1)"
    using assms(1) by (rule message_resolved)
  finally show ?thesis by (simp add: c py_format_missing)
qed

lemma short_record:
  "wxfmt (observation_record (children short_tree))
     = ''[KSMP] Location: None'' @ br @ ''Weather: Fair'' @ br @ ''Temperature: None'' @ br
       @ ''Relative Humidity: None'' @ br @ ''Wind: None'' @ br @ ''Dew Point: None'' @ br
       @ ''Visibility (miles): None''"
  by (simp add: wxfmt_def short_tree_def observation_record_def dict_get_def py_format_def)

theorem missing_fields_do_not_fail_witness:
  "location (reset_stored_values fresh_bot) ''  ''
     = Inr (''KSMP'', fresh_bot\<lparr>stored_location := ''KSMP''\<rparr>)
   \<and> table_http_get (id (service_url @ ''/'' @ ''KSMP'' @ ''.xml'')) = Some short_xml
   \<and> table_fromstring short_xml = Some short_tree
   \<and> weather_handler id table_http_get table_fromstring fresh_bot ''  ''
       = Inr (''[KSMP] Location: None'' @ br @ ''Weather: Fair'' @ br @ ''Temperature: None'' @ br
              @ ''Relative Humidity: None'' @ br @ ''Wind: None'' @ br @ ''Dew Point: None'' @ br
              @ ''Visibility (miles): None'' @ [LF, LF]
              @ ''([weather.gov](https://w1.weather.gov/xml/current_obs/KSMP.xml))'',
              fresh_bot\<lparr>stored_location := ''KSMP''\<rparr>)
   \<and> observation_record (children short_tree) ''wind_string'' = None
   \<and> py_format (dict_get (observation_record (children short_tree)) ''wind_string'') = ''None''"
proof -
  have e: "strip '' KSMP '' = ''KSMP''" "strip ''KSMP'' = ''KSMP''" "strip ''  '' = []"
    by (simp_all add: strip_eval)
  have r: "reset_stored_values fresh_bot = fresh_bot"
    by (simp add: reset_stored_values_def fresh_bot_def)
  have l: "location (reset_stored_values fresh_bot) ''  ''
     = Inr (''KSMP'', fresh_bot\<lparr>stored_location := ''KSMP''\<rparr>)"
    unfolding r
    by (simp add: location_def Let_def config_value_def fresh_bot_def example_config_def e)
  have g: "table_http_get (id (service_url @ ''/'' @ ''KSMP'' @ ''.xml'')) = Some short_xml"
    by (simp add: table_http_get_def service_url_def)
  have p: "table_fromstring short_xml = Some short_tree"
    by (simp add: table_fromstring_def short_xml_def calm_xml_def)
  have t: "truthy (config fresh_bot ''show_link'')"
    by (simp add: fresh_bot_def example_config_def)
  have w: "observation_record (children short_tree) ''wind_string'' = None"
    by (simp add: short_tree_def observation_record_def)
  note m = missing_fields_do_not_fail [where s = fresh_bot and raw = "''  ''"
      and loc = "''KSMP''" and ?s1.0 = "fresh_bot\<lparr>stored_location := ''KSMP''\<rparr>"
      and http_get = table_http_get and URL_str = id and response_text = short_xml
      and fromstring = table_fromstring and tree = short_tree, OF l g p]
  from m have h: "weather_handler id table_http_get table_fromstring fresh_bot ''  ''
      = Inr (wxfmt (observation_record (children short_tree))
               @ (if truthy (config fresh_bot ''show_link'')
                  then [LF, LF] @ ''([weather.gov]('' @ id (service_url @ ''/'' @ ''KSMP'' @ ''.xml'') @ ''))''
                  else []), fresh_bot\<lparr>stored_location := ''KSMP''\<rparr>)"
    by (rule conjunct1)
  from m w have n: "py_format (dict_get (observation_record (children short_tree)) ''wind_string'')
      = ''None''"
    by blast
  have h': "weather_handler id table_http_get table_fromstring fresh_bot ''  ''
       = Inr (''[KSMP] Location: None'' @ br @ ''Weather: Fair'' @ br @ ''Temperature: None'' @ br
              @ ''Relative Humidity: None'' @ br @ ''Wind: None'' @ br @ ''Dew Point: None'' @ br
              @ ''Visibility (miles): None'' @ [LF, LF]
              @ ''([weather.gov](https://w1.weather.gov/xml/current_obs/KSMP.xml))'',
              fresh_bot\<lparr>stored_location := ''KSMP''\<rparr>)"
    unfolding h short_record using t by (simp add: service_url_def)
  from l g p h' w n show ?thesis by (intro conjI)
qed

lemma no_LF: "CHR 0x0A \<notin> set v \<Longrightarrow> filter (\<lambda>c. c = CHR 0x0A) v = []"
  by (induction v) auto

text \<open>
  Claim C8, amended. For a record with all eight fields and \<^verbatim>\<open>show_link\<close> unset, the
  message is exactly the fixed template with the eight values, without a link section;
  the template has seven lines (\<^verbatim>\<open>station_id\<close> and \<^verbatim>\<open>location\<close> share the first), so the
  message has seven lines when no value contains a line feed.
\<close>

theorem wxfmt_all_fields:
  assumes "wxdata ''station_id'' = Some (Some v1)" and "wxdata ''location'' = Some (Some v2)"
    and "wxdata ''weather'' = Some (Some v3)" and "wxdata ''temperature_string'' = Some (Some v4)"
    and "wxdata ''relative_humidity'' = Some (Some v5)" and "wxdata ''wind_string'' = Some (Some v6)"
    and "wxdata ''dewpoint_string'' = Some (Some v7)" and "wxdata ''visibility_mi'' = Some (Some v8)"
    and "\<not> truthy (config s ''show_link'')"
  shows "message URL_str s (wxfmt wxdata)
      = Inr (''['' @ v1 @ ''] Location: '' @ v2 @ br
             @ ''Weather: '' @ v3 @ br
             @ ''Temperature: '' @ v4 @ br
             @ ''Relative Humidity: '' @ v5 @ br
             @ ''Wind: '' @ v6 @ br
             @ ''Dew Point: '' @ v7 @ br
             @ ''Visibility (miles): '' @ v8, s)
    \<and> (LF \<notin> set (v1 @ v2 @ v3 @ v4 @ v5 @ v6 @ v7 @ v8) \<longrightarrow> line_count (wxfmt wxdata) = 7)"
proof -
  have w: "wxfmt wxdata = ''['' @ v1 @ ''] Location: '' @ v2 @ br
             @ ''Weather: '' @ v3 @ br
             @ ''Temperature: '' @ v4 @ br
             @ ''Relative Humidity: '' @ v5 @ br
             @ ''Wind: '' @ v6 @ br
             @ ''Dew Point: '' @ v7 @ br
             @ ''Visibility (miles): '' @ v8"
    using assms(1-8) by (simp add: wxfmt_def dict_get_def py_format_def)
  have m: "message URL_str s (wxfmt wxdata) = Inr (wxfmt wxdata, s)"
    using assms(9) by (simp add: message_def)
  have l: "line_count (wxfmt wxdata) = 7"
    if "LF \<notin> set (v1 @ v2 @ v3 @ v4 @ v5 @ v6 @ v7 @ v8)"
    using that unfolding w by (simp add: line_count_def br_def LF_def no_LF)
  from m l show ?thesis unfolding w by simp
qed

theorem wxfmt_all_fields_witness:
  "full_record ''station_id'' = Some (Some ''KSMP'')
   \<and> full_record ''location'' = Some (Some ''St. Paul'')
   \<and> full_record ''weather'' = Some (Some ''Fair'')
   \<and> full_record ''temperature_string'' = Some (Some ''72F'')
   \<and> full_record ''relative_humidity'' = Some (Some ''40%'')
   \<and> full_record ''wind_string'' = Some (Some ''Calm'')
   \<and> full_record ''dewpoint_string'' = Some (Some ''50F'')
   \<and> full_record ''visibility_mi'' = Some (Some ''10'')
   \<and> \<not> truthy (config quiet_bot ''show_link'')
   \<and> message id quiet_bot (wxfmt full_record)
       = Inr (''[KSMP] Location: St. Paul'' @ br
              @ ''Weather: Fair'' @ br
              @ ''Temperature: 72F'' @ br
              @ ''Relative Humidity: 40%'' @ br
              @ ''Wind: Calm'' @ br
              @ ''Dew Point: 50F'' @ br
              @ ''Visibility (miles): 10'', quiet_bot)
   \<and> LF \<notin> set (''KSMP'' @ ''St. Paul'' @ ''Fair'' @ ''72F'' @ ''40%'' @ ''Calm'' @ ''50F'' @ ''10'')
   \<and> line_count (wxfmt full_record) = 7"
proof -
  have f: "full_record ''station_id'' = Some (Some ''KSMP'')"
    "full_record ''location'' = Some (Some ''St. Paul'')"
    "full_record ''weather'' = Some (Some ''Fair'')"
    "full_record ''temperature_string'' = Some (Some ''72F'')"
    "full_record ''relative_humidity'' = Some (Some ''40%'')"
    "full_record ''wind_string'' = Some (Some ''Calm'')"
    "full_record ''dewpoint_string'' = Some (Some ''50F'')"
    "full_record ''visibility_mi'' = Some (Some ''10'')"
    by (simp_all add: full_record_def)
  have q: "\<not> truthy (config quiet_bot ''show_link'')"
    by (simp add: quiet_bot_def quiet_config_def)
  have n: "LF \<notin> set (''KSMP'' @ ''St. Paul'' @ ''Fair'' @ ''72F'' @ ''40%'' @ ''Calm'' @ ''50F'' @ ''10'')"
    by (simp add: LF_def)
  note t = wxfmt_all_fields [where URL_str = id, OF f q]
  from t have m: "message id quiet_bot (wxfmt full_record)
       = Inr (''[KSMP] Location: St. Paul'' @ br
              @ ''Weather: Fair'' @ br
              @ ''Temperature: 72F'' @ br
              @ ''Relative Humidity: 40%'' @ br
              @ ''Wind: Calm'' @ br
              @ ''Dew Point: 50F'' @ br
              @ ''Visibility (miles): 10'', quiet_bot)"
    by simp
  from t n have l: "line_count (wxfmt full_record) = 7"
    by blast
  from f q m n l show ?thesis by (intro conjI)
qed

text \<open>
  The message for the record of the specification's example has seven lines, not eight.
\<close>

theorem wxfmt_seven_lines_counterexample:
  "message id quiet_bot (wxfmt full_record) = Inr (wxfmt full_record, quiet_bot)
   \<and> line_count (wxfmt full_record) = 7
   \<and> line_count (wxfmt full_record) \<noteq> 8"
  by (simp add: message_def quiet_bot_def quiet_config_def line_count_def wxfmt_def
      full_record_def dict_get_def py_format_def br_def LF_def)

end
